theory Spec2Isabelle
  imports Main "HOL-Library.AList"
begin

section \<open>Data model of \<open>robustnessgym.slicebuilders.slicebuilder\<close>\<close>

text \<open>
  Exceptions raised on the paths of \<open>SliceBuilder\<close>.  \<open>RuntimeError\<close> carries the
  pending prerequisites that the message of \<open>prerequisites_handler\<close> prints; the other
  constructors carry the message of the exception.
\<close>

datatype error =
    RuntimeError "string list"
  | ValueError string
  | NotImplementedError string
  | KeyError string
  | IndexError
  | ConcatError string
  | OtherError string

text \<open>
  A two-dimensional boolean \<open>np.ndarray\<close>: its second shape component and its rows.
  The first shape component is the number of rows.  A numpy array is rectangular, which
  is \<open>wf_ndarray\<close>.
\<close>

record ndarray =
  nd_cols :: nat
  nd_rows :: "bool list list"

definition wf_ndarray :: "ndarray \<Rightarrow> bool" where
  "wf_ndarray m = list_all (\<lambda>r. length r = nd_cols m) (nd_rows m)"

definition nd_shape :: "ndarray \<Rightarrow> nat \<times> nat" where
  "nd_shape m = (length (nd_rows m), nd_cols m)"

text \<open>\<open>slice_membership.T\<close>: iterating the transpose yields one list per column.\<close>

definition nd_T :: "ndarray \<Rightarrow> bool list list" where
  "nd_T m = map (\<lambda>j. map (\<lambda>r. r ! j) (nd_rows m)) [0..<nd_cols m]"

text \<open>\<open>itertools.compress(v, s)\<close>: the elements of \<open>v\<close> whose selector is true, stopping at
  the shorter of the two.\<close>

fun compress :: "'a list \<Rightarrow> bool list \<Rightarrow> 'a list" where
  "compress [] s = []"
| "compress (x # xs) [] = []"
| "compress (x # xs) (b # bs) = (if b then x # compress xs bs else compress xs bs)"

text \<open>\<open>cytoolz.valmap(f, d)\<close> on a dictionary kept as an association list in key order.\<close>

definition valmap :: "('v \<Rightarrow> 'w) \<Rightarrow> ('k \<times> 'v) list \<Rightarrow> ('k \<times> 'w) list" where
  "valmap f d = map (\<lambda>(k, v). (k, f v)) d"

text \<open>\<open>SliceBuilder.filter_batch_by_slice_membership\<close> (static method).\<close>

definition filter_batch_by_slice_membership ::
  "(string \<times> 'v list) list \<Rightarrow> ndarray \<Rightarrow> (string \<times> 'v list) list list" where
  "filter_batch_by_slice_membership batch slice_membership =
     map (\<lambda>s. valmap (\<lambda>v. compress v s) batch) (nd_T slice_membership)"

subsection \<open>The dataset collection\<close>

text \<open>
  Modelled from the spec: the dataset container (\<open>mosaic.DataPanel\<close>, wrapped as
  \<open>SliceDataPanel\<close>) is an external collaborator of this module.  A panel is an ordered
  collection of examples with its column listing, the column projection currently in
  scope (\<open>dp.format\<close>), and the free-form category and lineage slots that
  \<open>process_dataset\<close> fills in.
\<close>

record 'a DataPanel =
  column_names :: "string list"
  rows :: "'a list"
  dp_format :: "string list option"
  dp_category :: "string option"
  dp_lineage :: "(string \<times> string \<times> string) list"

text \<open>\<open>DataPanel()\<close>: the empty panel.\<close>

definition DataPanel_empty :: "'a DataPanel" where
  "DataPanel_empty =
     \<lparr>column_names = [], rows = [], dp_format = None, dp_category = None, dp_lineage = []\<rparr>"

text \<open>\<open>DataPanel(dp)\<close> on raw data: the type-normalising wrapper used by \<open>__call__\<close>.\<close>

definition DataPanel_of :: "'a list \<Rightarrow> 'a DataPanel" where
  "DataPanel_of raw =
     \<lparr>column_names = [], rows = raw, dp_format = None, dp_category = None, dp_lineage = []\<rparr>"

text \<open>
  Sequential fixed-size batching: consecutive pieces of \<open>b\<close> examples, the last one
  possibly shorter, exhausting the rows once and in order.
\<close>

function chunks :: "nat \<Rightarrow> 'a list \<Rightarrow> 'a list list" where
  "chunks b xs = (if b = 0 \<or> xs = [] then [] else take b xs # chunks b (drop b xs))"
  by pat_completeness auto
termination
  by (relation "measure (\<lambda>(b, xs). length xs)") auto

declare chunks.simps [simp del]

text \<open>
  Modelled from the spec: \<open>dp.batch(batch_size)\<close>.  Each batch is the panel restricted to
  one piece of its rows.  A batch size of zero is no fixed-size batching and is refused.
\<close>

definition dp_batch :: "'a DataPanel \<Rightarrow> nat \<Rightarrow> error + 'a DataPanel list" where
  "dp_batch dp batch_size =
     (if batch_size = 0 then Inl (ValueError ''batch_size must be positive'')
      else Inr (map (\<lambda>c. dp\<lparr>rows := c\<rparr>) (chunks batch_size (rows dp))))"

text \<open>
  Modelled from the spec: \<open>mosaic.concat(e, axis=0)\<close>, concatenation of same-shaped dataset
  fragments along the example axis.  Fragments whose column sets differ from that of the
  first one are refused with \<open>ConcatError\<close>, and so is an empty list of fragments, with
  \<open>ValueError\<close>; otherwise the rows of the fragments follow each other in list order.
\<close>

definition mosaic_concat :: "'a DataPanel list \<Rightarrow> error + 'a DataPanel" where
  "mosaic_concat objs =
     (case objs of
        [] \<Rightarrow> Inl (ValueError ''Must pass at least one object to concat.'')
      | p # ps \<Rightarrow>
          if list_ex (\<lambda>q. set (column_names q) \<noteq> set (column_names p)) ps
          then Inl (ConcatError ''Can only concatenate DataPanels along axis 0 (rows) if they have the same set of columns names.'')
          else Inr \<lparr>column_names = column_names p, rows = concat (map rows objs),
                    dp_format = None, dp_category = None, dp_lineage = []\<rparr>)"

text \<open>
  \<open>np.concatenate(arrays, axis=0)\<close> on the list of membership submatrices.  numpy raises
  \<open>ValueError\<close> on an empty list, on an entry that is \<open>None\<close> (a zero-dimensional
  object array), and on arrays whose second dimensions differ.
\<close>

definition np_concatenate :: "ndarray option list \<Rightarrow> error + ndarray" where
  "np_concatenate arrays =
     (case arrays of
        [] \<Rightarrow> Inl (ValueError ''need at least one array to concatenate'')
      | a # _ \<Rightarrow>
          if list_ex (\<lambda>x. x = None) arrays
          then Inl (ValueError ''zero-dimensional arrays cannot be concatenated'')
          else if list_ex (\<lambda>x. nd_cols (the x) \<noteq> nd_cols (the a)) arrays
          then Inl (ValueError ''all the input array dimensions except for the concatenation axis must match exactly'')
          else Inr \<lparr>nd_cols = nd_cols (the a),
                    nd_rows = concat (map (\<lambda>x. nd_rows (the x)) arrays)\<rparr>)"

subsection \<open>The builder\<close>

text \<open>The argument \<open>dp\<close> of \<open>__call__\<close>: a \<open>DataPanel\<close>, or raw data still to be wrapped.\<close>

datatype 'a dp_arg = Panel "'a DataPanel" | Raw "'a list"

text \<open>A prerequisite: its printed name and its \<open>available(dp)\<close> check.\<close>

record 'a prerequisite =
  prereq_name :: string
  available :: "'a dp_arg \<Rightarrow> bool"

text \<open>
  \<open>self\<close>.  \<open>state\<close> stands for the attributes of the builder that \<open>prepare_batch\<close>
  updates; \<open>prepare_batch\<close> and \<open>process_batch\<close> are the two overridable hooks, which may
  raise.
\<close>

record ('s, 'a) SliceBuilder =
  identifiers :: "string list"
  category :: string
  prerequisites :: "'a prerequisite list"
  state :: 's
  prepare_batch :: "'s \<Rightarrow> 'a DataPanel \<Rightarrow> string list \<Rightarrow> error + 's"
  process_batch ::
    "'s \<Rightarrow> 'a DataPanel \<Rightarrow> string list \<Rightarrow> error + ('a DataPanel list \<times> ndarray option)"

text \<open>The hooks as \<open>SliceBuilder\<close> itself defines them.\<close>

definition prepare_batch_base :: "'s \<Rightarrow> 'a DataPanel \<Rightarrow> string list \<Rightarrow> error + 's" where
  "prepare_batch_base s batch columns = Inl (NotImplementedError ''Implement `prepare_batch`.'')"

definition process_batch_base ::
  "'s \<Rightarrow> 'a DataPanel \<Rightarrow> string list \<Rightarrow> error + ('a DataPanel list \<times> ndarray option)" where
  "process_batch_base s dp columns = Inr ([dp], None)"

text \<open>A builder that overrides neither hook.\<close>

definition base_builder ::
  "string list \<Rightarrow> string \<Rightarrow> 'a prerequisite list \<Rightarrow> (unit, 'a) SliceBuilder" where
  "base_builder idents cat prereqs =
     \<lparr>identifiers = idents, category = cat, prerequisites = prereqs, state = (),
      prepare_batch = prepare_batch_base, process_batch = process_batch_base\<rparr>"

definition num_slices :: "('s, 'a) SliceBuilder \<Rightarrow> nat" where
  "num_slices self = length (identifiers self)"

text \<open>Invocations of the two hooks, in the order they happen.\<close>

datatype 'a event = PrepareBatch "'a DataPanel" | ProcessBatch "'a DataPanel"

subsection \<open>Prerequisites\<close>

definition prerequisites_handler :: "('s, 'a) SliceBuilder \<Rightarrow> 'a dp_arg \<Rightarrow> error + unit" where
  "prerequisites_handler self dp =
     (let pending = filter (\<lambda>prerequisite. \<not> available prerequisite dp) (prerequisites self)
      in if pending \<noteq> [] then Inl (RuntimeError (map prereq_name pending)) else Inr ())"

text \<open>\<open>str.startswith\<close>.\<close>

definition startswith :: "string \<Rightarrow> string \<Rightarrow> bool" where
  "startswith s p = (take (length p) s = p)"

definition filter_prerequisite_columns ::
  "('s, 'a) SliceBuilder \<Rightarrow> string list \<Rightarrow> string list \<Rightarrow> string list" where
  "filter_prerequisite_columns self columns all_columns =
     filter (\<lambda>col. list_ex (\<lambda>prereq. startswith col (prereq_name prereq)) (prerequisites self))
       all_columns"

subsection \<open>Preparation pass\<close>

fun prepare_loop ::
  "('s, 'a) SliceBuilder \<Rightarrow> string list \<Rightarrow> 'a DataPanel list \<Rightarrow>
     'a event list \<times> (error + ('s, 'a) SliceBuilder)" where
  "prepare_loop self columns [] = ([], Inr self)"
| "prepare_loop self columns (batch # rest) =
     (case prepare_batch self (state self) batch columns of
        Inl (NotImplementedError m) \<Rightarrow> ([PrepareBatch batch], Inr self)
      | Inl e \<Rightarrow> ([PrepareBatch batch], Inl e)
      | Inr s' \<Rightarrow>
          (case prepare_loop (self\<lparr>state := s'\<rparr>) columns rest of
             (tr, r) \<Rightarrow> (PrepareBatch batch # tr, r)))"

definition prepare_dataset ::
  "('s, 'a) SliceBuilder \<Rightarrow> 'a DataPanel \<Rightarrow> string list \<Rightarrow> nat \<Rightarrow>
     'a event list \<times> (error + ('s, 'a) SliceBuilder)" where
  "prepare_dataset self dp columns batch_size =
     (let scoped = dp\<lparr>dp_format :=
            Some (columns @ filter_prerequisite_columns self columns (column_names dp))\<rparr>
      in case dp_batch scoped batch_size of
           Inl e \<Rightarrow> ([], Inl e)
         | Inr batches \<Rightarrow> prepare_loop self columns batches)"

subsection \<open>Transformation pass\<close>

text \<open>
  \<open>for sl, sl_batch in zip(slices, sliced_batches): sl.append(sl_batch)\<close>: the accumulators
  are extended pairwise, up to the shorter of the two lists; the others stay as they are.
\<close>

fun append_batches :: "'b list list \<Rightarrow> 'b list \<Rightarrow> 'b list list" where
  "append_batches [] sliced_batches = []"
| "append_batches (sl # slices) [] = sl # slices"
| "append_batches (sl # slices) (sl_batch # sliced_batches) =
     (sl @ [sl_batch]) # append_batches slices sliced_batches"

text \<open>The loop over the batches of \<open>process_dataset\<close>, with its two accumulators.\<close>

fun process_loop ::
  "('s, 'a) SliceBuilder \<Rightarrow> string list \<Rightarrow> 'a DataPanel list \<Rightarrow>
     'a DataPanel list list \<Rightarrow> ndarray option list \<Rightarrow>
     'a event list \<times> (error + ('a DataPanel list list \<times> ndarray option list))" where
  "process_loop self columns [] slices all_slice_memberships =
     ([], Inr (slices, all_slice_memberships))"
| "process_loop self columns (batch # rest) slices all_slice_memberships =
     (case process_batch self (state self) batch columns of
        Inl e \<Rightarrow> ([ProcessBatch batch], Inl e)
      | Inr (sliced_batches, slice_memberships) \<Rightarrow>
          (case process_loop self columns rest (append_batches slices sliced_batches)
                  (all_slice_memberships @ [slice_memberships]) of
             (tr, r) \<Rightarrow> (ProcessBatch batch # tr, r)))"

text \<open>
  \<open>str.capitalize\<close> on ASCII text: the first character in upper case, the others in
  lower case.
\<close>

definition upper_char :: "char \<Rightarrow> char" where
  "upper_char c =
     (let n = (of_char c :: nat) in if 97 \<le> n \<and> n \<le> 122 then char_of (n - 32) else c)"

definition lower_char :: "char \<Rightarrow> char" where
  "lower_char c =
     (let n = (of_char c :: nat) in if 65 \<le> n \<and> n \<le> 90 then char_of (n + 32) else c)"

definition capitalize :: "string \<Rightarrow> string" where
  "capitalize s = (case s of [] \<Rightarrow> [] | c # cs \<Rightarrow> upper_char c # map lower_char cs)"

text \<open>
  The closing loop of \<open>process_dataset\<close>: every slice gets the category of the builder and
  one more lineage entry.  \<open>strings_as_json\<close> (of \<open>robustnessgym.core.tools\<close>) is a parameter.
  There are as many slices as identifiers, so \<open>self.identifiers[i]\<close> is in range.
\<close>

definition tag_slices ::
  "(string list \<Rightarrow> string) \<Rightarrow> ('s, 'a) SliceBuilder \<Rightarrow> string list \<Rightarrow>
     'a DataPanel list \<Rightarrow> 'a DataPanel list" where
  "tag_slices strings_as_json self columns slices =
     map (\<lambda>(sl, ident).
            sl\<lparr>dp_category := Some (category self),
               dp_lineage := dp_lineage sl @
                 [(capitalize (category self), ident, strings_as_json columns)]\<rparr>)
       (zip slices (identifiers self))"

text \<open>
  \<open>[mosaic.concat(e, axis=0) for e in slices]\<close>: the accumulators are concatenated one after
  the other, and the first refusal ends the comprehension.
\<close>

fun concat_slices :: "'a DataPanel list list \<Rightarrow> error + 'a DataPanel list" where
  "concat_slices [] = Inr []"
| "concat_slices (e # es) =
     (case mosaic_concat e of
        Inl err \<Rightarrow> Inl err
      | Inr sl \<Rightarrow>
          (case concat_slices es of
             Inl err \<Rightarrow> Inl err
           | Inr sls \<Rightarrow> Inr (sl # sls)))"

text \<open>
  \<open>SliceBuilder.process_dataset\<close>.  \<open>num_proc\<close> is accepted and not used.  The result pairs
  the hook invocations with either the exception raised or the slices and the membership
  matrix.
\<close>

definition process_dataset ::
  "(string list \<Rightarrow> string) \<Rightarrow> ('s, 'a) SliceBuilder \<Rightarrow> 'a DataPanel \<Rightarrow> string list \<Rightarrow>
     nat \<Rightarrow> nat option \<Rightarrow> 'a event list \<times> (error + ('a DataPanel list \<times> ndarray))" where
  "process_dataset strings_as_json self dp columns batch_size num_proc =
     (case dp_batch dp batch_size of
        Inl e \<Rightarrow> ([], Inl e)
      | Inr batches \<Rightarrow>
          (case process_loop self columns batches
                  (replicate (length (identifiers self)) [DataPanel_empty]) [] of
             (tr, Inl e) \<Rightarrow> (tr, Inl e)
           | (tr, Inr (slices, all_slice_memberships)) \<Rightarrow>
               (case np_concatenate all_slice_memberships of
                  Inl e \<Rightarrow> (tr, Inl e)
                | Inr slice_membership \<Rightarrow>
                    (case concat_slices slices of
                       Inl e \<Rightarrow> (tr, Inl e)
                     | Inr slices' \<Rightarrow>
                         (tr, Inr (tag_slices strings_as_json self columns slices',
                                   slice_membership))))))"

subsection \<open>The top-level call\<close>

text \<open>
  \<open>SliceBuilder.__call__\<close> on a \<open>DataPanel\<close>: the prerequisite check, the preparation pass
  with the caller's \<open>batch_size\<close>, then \<open>process_dataset\<close>, to which no \<open>batch_size\<close> is
  passed, so that its default of 32 applies.
\<close>

definition call_panel ::
  "(string list \<Rightarrow> string) \<Rightarrow> ('s, 'a) SliceBuilder \<Rightarrow> 'a DataPanel \<Rightarrow> string list \<Rightarrow>
     nat \<Rightarrow> nat option \<Rightarrow> 'a event list \<times> (error + ('a DataPanel list \<times> ndarray))" where
  "call_panel strings_as_json self dp columns batch_size num_proc =
     (case prerequisites_handler self (Panel dp) of
        Inl e \<Rightarrow> ([], Inl e)
      | Inr _ \<Rightarrow>
          (case prepare_dataset self dp columns batch_size of
             (tr1, Inl e) \<Rightarrow> (tr1, Inl e)
           | (tr1, Inr self') \<Rightarrow>
               (case process_dataset strings_as_json self' dp columns 32 num_proc of
                  (tr2, r) \<Rightarrow> (tr1 @ tr2, r))))"

text \<open>
  \<open>SliceBuilder.__call__\<close>.  Raw data is checked against the prerequisites, wrapped, and
  the call is made again with \<open>dp\<close> and \<open>columns\<close> only: \<open>batch_size\<close> is back to its
  default of 100 and \<open>num_proc\<close> to \<open>None\<close>.
\<close>

definition call ::
  "(string list \<Rightarrow> string) \<Rightarrow> ('s, 'a) SliceBuilder \<Rightarrow> 'a dp_arg \<Rightarrow> string list \<Rightarrow>
     nat \<Rightarrow> nat option \<Rightarrow> 'a event list \<times> (error + ('a DataPanel list \<times> ndarray))" where
  "call strings_as_json self dp columns batch_size num_proc =
     (case dp of
        Panel p \<Rightarrow> call_panel strings_as_json self p columns batch_size num_proc
      | Raw raw \<Rightarrow>
          (case prerequisites_handler self (Raw raw) of
             Inl e \<Rightarrow> ([], Inl e)
           | Inr _ \<Rightarrow> call_panel strings_as_json self (DataPanel_of raw) columns 100 None))"

subsection \<open>Retrieval\<close>

text \<open>
  What \<open>retrieve\<close> reads of its \<open>batch\<close>: the columns \<open>"slices"\<close> and \<open>"cache"\<close>, each \<open>None\<close>
  when the panel has no such column.  A cell of either column is a dictionary, kept as an
  association list in key order; a cache cell maps an identifier to a dictionary from
  column-set keys to encoded values.
\<close>

record ('m, 'c) cached_batch =
  slices_column :: "(string \<times> 'm) list list option"
  cache_column :: "(string \<times> (string \<times> 'c) list) list list option"

text \<open>The \<open>columns\<close> argument: one ordered column list, or a list of them.\<close>

datatype columns_arg = Single "string list" | Batched "string list list"

text \<open>The class \<open>cls\<close>: its \<open>__name__\<close> and its \<open>decode\<close> (of \<open>StorageMixin\<close>), a parameter.\<close>

record ('c, 'v) cls =
  cls_name :: string
  decode :: "'c \<Rightarrow> 'v"

text \<open>\<open>str(identifier)\<close>, the identifier being \<open>None\<close> or a string.\<close>

definition str_identifier :: "string option \<Rightarrow> string" where
  "str_identifier identifier = (case identifier of None \<Rightarrow> ''None'' | Some s \<Rightarrow> s)"

text \<open>
  \<open>[cls.decode(cache[str(identifier)][key]) for cache in batch["cache"]]\<close>; either
  subscript raises \<open>KeyError\<close> on a missing key.
\<close>

fun decode_all ::
  "('c \<Rightarrow> 'v) \<Rightarrow> string \<Rightarrow> string \<Rightarrow> (string \<times> (string \<times> 'c) list) list list \<Rightarrow>
     error + 'v list" where
  "decode_all dec ident key [] = Inr []"
| "decode_all dec ident key (cache # rest) =
     (case map_of cache ident of
        None \<Rightarrow> Inl (KeyError ident)
      | Some entry \<Rightarrow>
          (case map_of entry key of
             None \<Rightarrow> Inl (KeyError key)
           | Some enc \<Rightarrow>
               (case decode_all dec ident key rest of
                  Inl e \<Rightarrow> Inl e
                | Inr vs \<Rightarrow> Inr (dec enc # vs))))"

text \<open>
  One entry of the retrieval dictionary.  \<open>batch["cache"]\<close> on a panel without that column
  is a failed key lookup as well.
\<close>

definition retrieve_entry ::
  "('c \<Rightarrow> 'v) \<Rightarrow> string \<Rightarrow> string \<Rightarrow> ('m, 'c) cached_batch \<Rightarrow> error + 'v list" where
  "retrieve_entry dec ident key batch =
     (case cache_column batch of
        None \<Rightarrow> Inl (KeyError ''cache'')
      | Some caches \<Rightarrow> decode_all dec ident key caches)"

text \<open>The dictionary comprehension of the batched retrieval; a repeated key is overwritten.\<close>

fun retrieve_entries ::
  "('c \<Rightarrow> 'v) \<Rightarrow> (string list \<Rightarrow> string) \<Rightarrow> string \<Rightarrow> ('m, 'c) cached_batch \<Rightarrow>
     string list list \<Rightarrow> (string \<times> 'v list) list \<Rightarrow> error + (string \<times> 'v list) list" where
  "retrieve_entries dec strings_as_json ident batch [] acc = Inr acc"
| "retrieve_entries dec strings_as_json ident batch (cols # rest) acc =
     (case retrieve_entry dec ident (strings_as_json cols) batch of
        Inl e \<Rightarrow> Inl e
      | Inr vs \<Rightarrow>
          retrieve_entries dec strings_as_json ident batch rest
            (AList.update (strings_as_json cols) vs acc))"

text \<open>The body of the \<open>try\<close>: \<open>columns[0]\<close> raises \<open>IndexError\<close> on an empty list.\<close>

definition retrieval_of ::
  "('c \<Rightarrow> 'v) \<Rightarrow> (string list \<Rightarrow> string) \<Rightarrow> string \<Rightarrow> ('m, 'c) cached_batch \<Rightarrow>
     columns_arg \<Rightarrow> error + (string \<times> 'v list) list" where
  "retrieval_of dec strings_as_json ident batch columns =
     (case columns of
        Single [] \<Rightarrow> Inl IndexError
      | Batched [] \<Rightarrow> Inl IndexError
      | Single cols \<Rightarrow>
          (case retrieve_entry dec ident (strings_as_json cols) batch of
             Inl e \<Rightarrow> Inl e
           | Inr vs \<Rightarrow> Inr [(strings_as_json cols, vs)])
      | Batched colss \<Rightarrow> retrieve_entries dec strings_as_json ident batch colss [])"

text \<open>The message of the one failure that a missing key is turned into.\<close>

definition retrieval_failure :: error where
  "retrieval_failure = ValueError ''Could not retrieve information for all keys.''"

text \<open>
  The identifier that the lookups use.  When none is given (\<open>None\<close> or an empty string),
  the keys of the first cell of the \<open>"slices"\<close> column are scanned for one that starts with
  the class name; with no such key the identifier stays as it was.
\<close>

definition infer_identifier ::
  "string \<Rightarrow> (string \<times> 'm) list list \<Rightarrow> string option \<Rightarrow> error + string option" where
  "infer_identifier name slices identifier =
     (if identifier = None \<or> identifier = Some [] then
        (case slices of
           [] \<Rightarrow> Inl IndexError
         | first # _ \<Rightarrow>
             (case find (\<lambda>ident_key. startswith ident_key name) (map fst first) of
                Some ident_key \<Rightarrow> Inr (Some ident_key)
              | None \<Rightarrow> Inr identifier))
      else Inr identifier)"

text \<open>
  \<open>SliceBuilder.retrieve\<close> (class method).  \<open>proc_fns\<close> is tested for truth only; nothing
  follows either \<open>pass\<close>, so those paths return \<open>None\<close>.
\<close>

definition retrieve ::
  "('c, 'v) cls \<Rightarrow> (string list \<Rightarrow> string) \<Rightarrow> ('m, 'c) cached_batch \<Rightarrow> columns_arg \<Rightarrow>
     'p list \<Rightarrow> string option \<Rightarrow> bool \<Rightarrow> error + (string \<times> 'v list) list option" where
  "retrieve cl strings_as_json batch columns proc_fns identifier reapply =
     (if \<not> reapply then
        (case slices_column batch of
           None \<Rightarrow> Inr None
         | Some slices \<Rightarrow>
             (case infer_identifier (cls_name cl) slices identifier of
                Inl e \<Rightarrow> Inl e
              | Inr identifier' \<Rightarrow>
                  (case retrieval_of (decode cl) strings_as_json (str_identifier identifier')
                          batch columns of
                     Inl (KeyError k) \<Rightarrow> Inl retrieval_failure
                   | Inl e \<Rightarrow> Inl e
                   | Inr retrieval \<Rightarrow>
                       if proc_fns = [] then Inr (Some retrieval) else Inr None)))
      else Inr None)"

section \<open>Vocabulary of the retrieval claims\<close>

text \<open>
  The \<open>columns\<close> argument is an empty list; the cache keys that a retrieval asks for; a
  cache cell lacks the entry for an identifier and a column-set key; the identifier string
  that the lookups of \<open>retrieve\<close> use; the exception is a \<open>KeyError\<close>.
\<close>

definition columns_empty :: "columns_arg \<Rightarrow> bool" where
  "columns_empty columns = (case columns of Single cols \<Rightarrow> cols = [] | Batched colss \<Rightarrow> colss = [])"

definition requested_keys :: "(string list \<Rightarrow> string) \<Rightarrow> columns_arg \<Rightarrow> string list" where
  "requested_keys strings_as_json columns =
     (case columns of Single cols \<Rightarrow> [strings_as_json cols]
      | Batched colss \<Rightarrow> map strings_as_json colss)"

definition key_missing :: "string \<Rightarrow> string \<Rightarrow> (string \<times> (string \<times> 'c) list) list \<Rightarrow> bool" where
  "key_missing ident key cache =
     (case map_of cache ident of None \<Rightarrow> True | Some entry \<Rightarrow> map_of entry key = None)"

definition lookup_identifier :: "string \<Rightarrow> (string \<times> 'm) list list \<Rightarrow> string option \<Rightarrow> string" where
  "lookup_identifier name slices identifier =
     str_identifier (case infer_identifier name slices identifier of
                       Inr identifier' \<Rightarrow> identifier' | Inl e \<Rightarrow> identifier)"

definition is_KeyError :: "error \<Rightarrow> bool" where
  "is_KeyError e = (case e of KeyError k \<Rightarrow> True | _ \<Rightarrow> False)"

section \<open>Vocabulary of the pipeline claims\<close>

text \<open>
  The batches that \<open>dp.batch(batch_size)\<close> yields for a positive batch size; the panel under
  the column projection of the preparation pass; the panel that \<open>__call__\<close> works on, and
  the batch size that reaches its preparation pass.
\<close>

definition batches_of :: "'a DataPanel \<Rightarrow> nat \<Rightarrow> 'a DataPanel list" where
  "batches_of dp batch_size = map (\<lambda>c. dp\<lparr>rows := c\<rparr>) (chunks batch_size (rows dp))"

definition scoped_panel :: "('s, 'a) SliceBuilder \<Rightarrow> 'a DataPanel \<Rightarrow> string list \<Rightarrow> 'a DataPanel" where
  "scoped_panel self dp columns =
     dp\<lparr>dp_format := Some (columns @ filter_prerequisite_columns self columns (column_names dp))\<rparr>"

definition as_panel :: "'a dp_arg \<Rightarrow> 'a DataPanel" where
  "as_panel dp = (case dp of Panel p \<Rightarrow> p | Raw raw \<Rightarrow> DataPanel_of raw)"

definition preparation_batch_size :: "'a dp_arg \<Rightarrow> nat \<Rightarrow> nat" where
  "preparation_batch_size dp batch_size = (case dp of Panel p \<Rightarrow> batch_size | Raw raw \<Rightarrow> 100)"



definition honors_batch_contract :: "('s, 'a) SliceBuilder \<Rightarrow> string list \<Rightarrow> bool" where
  "honors_batch_contract self columns =
     (\<forall>batch. \<exists>sliced_batches slice_memberships.
        process_batch self (state self) batch columns
          = Inr (sliced_batches, Some slice_memberships) \<and>
        length sliced_batches = num_slices self \<and>
        wf_ndarray slice_memberships \<and>
        nd_shape slice_memberships = (length (rows batch), num_slices self))"



section \<open>Example inputs\<close>

text \<open>A batch of three examples in two columns, and a membership matrix of shape (3, 2).\<close>

definition ex_batch :: "(string \<times> string list) list" where
  "ex_batch = [(''text'', [''a'', ''b'', ''c'']), (''label'', [''x'', ''y'', ''z''])]"

definition ex_matrix :: ndarray where
  "ex_matrix = \<lparr>nd_cols = 2, nd_rows = [[True, False], [False, True], [True, True]]\<rparr>"

text \<open>An encoding of column lists, in the place of \<open>strings_as_json\<close>.\<close>

definition ex_json :: "string list \<Rightarrow> string" where
  "ex_json cols = concat (map (\<lambda>c. c @ '';'') cols)"

text \<open>A dataset of five examples, and the builder that overrides nothing.\<close>

definition ex_dp5 :: "nat DataPanel" where
  "ex_dp5 = \<lparr>column_names = [''text''], rows = [0, 1, 2, 3, 4], dp_format = None,
             dp_category = None, dp_lineage = []\<rparr>"

definition identity_builder :: "(unit, nat) SliceBuilder" where
  "identity_builder = base_builder [''Identity''] ''generic'' []"

text \<open>
  A class, a panel of two examples with cached values for the column list \<open>["text"]\<close>, a
  panel of one example whose cache cell is an empty dictionary, and a panel without the
  two columns.
\<close>

definition ex_cls :: "(string, string) cls" where
  "ex_cls = \<lparr>cls_name = ''SliceBuilder'', decode = (\<lambda>c. ''decoded-'' @ c)\<rparr>"

definition ex_cached :: "(unit, string) cached_batch" where
  "ex_cached =
     \<lparr>slices_column = Some [[(''SliceBuilder-1'', ())], [(''SliceBuilder-1'', ())]],
      cache_column = Some [[(''SliceBuilder-1'', [(''text;'', ''e0'')])],
                           [(''SliceBuilder-1'', [(''text;'', ''e1'')])]]\<rparr>"

definition ex_cached_unkeyed :: "(unit, string) cached_batch" where
  "ex_cached_unkeyed = \<lparr>slices_column = Some [[]], cache_column = Some [[]]\<rparr>"

definition ex_uncached :: "(unit, string) cached_batch" where
  "ex_uncached = \<lparr>slices_column = None, cache_column = None\<rparr>"

text \<open>A panel of two examples with the \<open>"slices"\<close> column and without the \<open>"cache"\<close> column.\<close>

definition ex_slices_only :: "(unit, string) cached_batch" where
  "ex_slices_only =
     \<lparr>slices_column = Some [[(''SliceBuilder-1'', ())], [(''SliceBuilder-1'', ())]],
      cache_column = None\<rparr>"

text \<open>
  A prerequisite that asks for a column named after it, and a builder with the two slices
  of the even and of the odd examples.
\<close>

definition ex_prerequisite :: "nat prerequisite" where
  "ex_prerequisite =
     \<lparr>prereq_name = ''Spacy'',
      available = (\<lambda>dp. case dp of Panel p \<Rightarrow> ''Spacy'' \<in> set (column_names p) | Raw raw \<Rightarrow> False)\<rparr>"

definition parity_builder :: "(unit, nat) SliceBuilder" where
  "parity_builder =
     \<lparr>identifiers = [''even'', ''odd''], category = ''subpopulation'', prerequisites = [],
      state = (), prepare_batch = prepare_batch_base,
      process_batch = (\<lambda>s dp columns.
        Inr ([dp\<lparr>rows := filter even (rows dp)\<rparr>, dp\<lparr>rows := filter odd (rows dp)\<rparr>],
             Some \<lparr>nd_cols = 2, nd_rows = map (\<lambda>x. [even x, odd x]) (rows dp)\<rparr>))\<rparr>"

text \<open>
  Two builders that report membership only, with an empty panel for every sub-batch: one
  marks the even and the odd examples, the other marks the first example of every batch.
\<close>

definition membership_builder :: "(unit, nat) SliceBuilder" where
  "membership_builder =
     \<lparr>identifiers = [''even'', ''odd''], category = ''subpopulation'', prerequisites = [],
      state = (), prepare_batch = prepare_batch_base,
      process_batch = (\<lambda>s dp columns.
        Inr ([DataPanel_empty, DataPanel_empty],
             Some \<lparr>nd_cols = 2, nd_rows = map (\<lambda>x. [even x, odd x]) (rows dp)\<rparr>))\<rparr>"


section \<open>Selecting examples by membership\<close>

lemma compress_nths:
  "compress v s = nths v {i. i < length s \<and> s ! i}"
proof (induction v s rule: compress.induct)
  case (1 s)
  show ?case by simp
next
  case (2 x xs)
  show ?case by (simp add: nths_Cons)
next
  case (3 x xs b bs)
  have eq: "{j. Suc j < Suc (length bs) \<and> (b # bs) ! Suc j} = {i. i < length bs \<and> bs ! i}"
    by simp
  show ?case using 3 by (simp add: nths_Cons eq)
qed

text \<open>
  C4.  \<open>filter_batch_by_slice_membership(batch, matrix)\<close> returns one dictionary per column
  of the matrix.  Element \<open>j\<close> has the columns of the batch, in their order, and each holds
  exactly the entries at the rows \<open>i\<close> with \<open>matrix[i, j]\<close> true, in their original relative
  order (\<^const>\<open>nths\<close> keeps the entries whose index is in the set).  This holds for every
  batch and matrix, in particular when the columns of the batch are as long as the matrix
  has rows.
\<close>

theorem filter_batch_by_slice_membership_selects:
  "length (filter_batch_by_slice_membership batch m) = nd_cols m \<and>
   (\<forall>j < nd_cols m.
      filter_batch_by_slice_membership batch m ! j =
        map (\<lambda>(c, v). (c, nths v {i. i < length (nd_rows m) \<and> nd_rows m ! i ! j})) batch)"
  by (simp add: filter_batch_by_slice_membership_def nd_T_def valmap_def compress_nths
      cong: conj_cong)

theorem filter_batch_by_slice_membership_selects_witness:
  "wf_ndarray ex_matrix \<and>
   length (filter_batch_by_slice_membership ex_batch ex_matrix) = 2 \<and>
   filter_batch_by_slice_membership ex_batch ex_matrix ! 1 =
     [(''text'', [''b'', ''c'']), (''label'', [''y'', ''z''])]"
  using filter_batch_by_slice_membership_selects [of ex_batch ex_matrix]
  by (simp add: ex_batch_def ex_matrix_def wf_ndarray_def nths_Cons)

section \<open>Retrieval\<close>

lemma decode_all_Inl:
  "decode_all dec ident key caches = Inl e \<Longrightarrow>
     is_KeyError e \<and> (\<exists>cache \<in> set caches. key_missing ident key cache)"
  by (induction caches arbitrary: e)
     (auto simp: key_missing_def is_KeyError_def split: option.splits sum.splits)

lemma decode_all_Inr:
  "decode_all dec ident key caches = Inr vs \<Longrightarrow>
     \<forall>cache \<in> set caches. \<not> key_missing ident key cache"
  by (induction caches arbitrary: vs)
     (auto simp: key_missing_def split: option.splits sum.splits)

lemma retrieve_entry_Inl:
  "cache_column batch = Some caches \<Longrightarrow> retrieve_entry dec ident key batch = Inl e \<Longrightarrow>
     is_KeyError e \<and> (\<exists>cache \<in> set caches. key_missing ident key cache)"
  by (simp add: retrieve_entry_def decode_all_Inl)

lemma retrieve_entry_Inr:
  "cache_column batch = Some caches \<Longrightarrow> retrieve_entry dec ident key batch = Inr vs \<Longrightarrow>
     \<forall>cache \<in> set caches. \<not> key_missing ident key cache"
  by (simp add: retrieve_entry_def decode_all_Inr)

lemma retrieve_entries_Inl:
  "cache_column batch = Some caches \<Longrightarrow>
   retrieve_entries dec sj ident batch colss acc = Inl e \<Longrightarrow>
     is_KeyError e \<and> (\<exists>cache \<in> set caches. \<exists>key \<in> set (map sj colss). key_missing ident key cache)"
proof (induction colss arbitrary: acc)
  case Nil
  then show ?case by simp
next
  case (Cons cols rest)
  show ?case
  proof (cases "retrieve_entry dec ident (sj cols) batch")
    case (Inl e')
    with Cons.prems have "e' = e" by simp
    with Inl retrieve_entry_Inl [OF Cons.prems(1)] show ?thesis by fastforce
  next
    case (Inr vs)
    with Cons.prems have "retrieve_entries dec sj ident batch rest (AList.update (sj cols) vs acc) = Inl e"
      by simp
    from Cons.IH [OF Cons.prems(1) this] show ?thesis by auto
  qed
qed

lemma retrieve_entries_Inr:
  "cache_column batch = Some caches \<Longrightarrow>
   retrieve_entries dec sj ident batch colss acc = Inr r \<Longrightarrow>
     \<forall>cache \<in> set caches. \<forall>key \<in> set (map sj colss). \<not> key_missing ident key cache"
proof (induction colss arbitrary: acc)
  case Nil
  then show ?case by simp
next
  case (Cons cols rest)
  show ?case
  proof (cases "retrieve_entry dec ident (sj cols) batch")
    case (Inl e')
    with Cons.prems show ?thesis by simp
  next
    case (Inr vs)
    with Cons.prems have "retrieve_entries dec sj ident batch rest (AList.update (sj cols) vs acc) = Inr r"
      by simp
    from Cons.IH [OF Cons.prems(1) this] retrieve_entry_Inr [OF Cons.prems(1) Inr]
    show ?thesis by auto
  qed
qed

lemma retrieval_of_Inl:
  assumes "cache_column batch = Some caches" and "\<not> columns_empty columns"
    and "retrieval_of dec sj ident batch columns = Inl e"
  shows "is_KeyError e \<and>
     (\<exists>cache \<in> set caches. \<exists>key \<in> set (requested_keys sj columns). key_missing ident key cache)"
proof (cases columns)
  case (Single cols)
  with assms(2) obtain c cs where cols: "cols = c # cs"
    by (cases cols) (auto simp: columns_empty_def)
  with Single assms(3) have "retrieve_entry dec ident (sj cols) batch = Inl e"
    by (auto simp: retrieval_of_def split: sum.splits)
  from retrieve_entry_Inl [OF assms(1) this] Single show ?thesis
    by (simp add: requested_keys_def)
next
  case (Batched colss)
  with assms(2) obtain c cs where colss: "colss = c # cs"
    by (cases colss) (auto simp: columns_empty_def)
  with Batched assms(3) have "retrieve_entries dec sj ident batch colss [] = Inl e"
    by (simp add: retrieval_of_def)
  from retrieve_entries_Inl [OF assms(1) this] Batched show ?thesis
    by (simp add: requested_keys_def)
qed

lemma retrieval_of_Inr:
  assumes "cache_column batch = Some caches"
    and "retrieval_of dec sj ident batch columns = Inr r"
  shows "\<forall>cache \<in> set caches. \<forall>key \<in> set (requested_keys sj columns). \<not> key_missing ident key cache"
proof (cases columns)
  case (Single cols)
  with assms(2) obtain vs where "retrieve_entry dec ident (sj cols) batch = Inr vs"
    by (cases cols) (auto simp: retrieval_of_def split: sum.splits)
  from retrieve_entry_Inr [OF assms(1) this] Single show ?thesis
    by (simp add: requested_keys_def)
next
  case (Batched colss)
  with assms(2) have "retrieve_entries dec sj ident batch colss [] = Inr r"
    by (cases colss) (auto simp: retrieval_of_def)
  from retrieve_entries_Inr [OF assms(1) this] Batched show ?thesis
    by (simp add: requested_keys_def)
qed

lemma infer_identifier_Inl:
  "infer_identifier name slices identifier = Inl e \<Longrightarrow> slices = [] \<and> e = IndexError"
  by (auto simp: infer_identifier_def split: if_splits list.splits option.splits)

lemma retrieve_without_slices_column:
  "slices_column batch = None \<Longrightarrow>
   retrieve cl strings_as_json batch columns proc_fns identifier reapply = Inr None"
  by (simp add: retrieve_def)

text \<open>
  C7.  \<open>retrieve\<close> tests for the \<open>"slices"\<close> column and then reads the \<open>"cache"\<close> column.  On a
  panel that has the first and not the second, so that it carries no cache data, the test
  passes, \<open>batch["cache"]\<close> fails, and \<open>retrieve\<close> raises instead of returning \<open>None\<close>; on the
  panel without either column it returns \<open>None\<close>.
\<close>

theorem retrieve_slices_without_cache_raises:
  "cache_column ex_slices_only = None \<and>
   retrieve ex_cls ex_json ex_slices_only (Single [''text'']) ([] :: unit list)
     (Some ''SliceBuilder-1'') False
     = Inl (ValueError ''Could not retrieve information for all keys.'') \<and>
   retrieve ex_cls ex_json ex_uncached (Single [''text'']) ([] :: unit list)
     (Some ''SliceBuilder-1'') False = Inr None"
  by (simp add: retrieve_def ex_slices_only_def ex_uncached_def infer_identifier_def
      retrieval_of_def retrieve_entry_def retrieval_failure_def str_identifier_def)

text \<open>
  C8, as stated, fails: with an empty \<open>columns\<close> list, \<open>columns[0]\<close> raises \<open>IndexError\<close>
  inside the \<open>try\<close>, which only catches \<open>KeyError\<close>.  Here the cache cell has no entry for
  the identifier \<open>X\<close>, and the failure raised is not the generic one.
\<close>

theorem retrieve_empty_columns_counterexample:
  "key_missing (lookup_identifier (cls_name ex_cls) [[] :: (string \<times> unit) list] (Some ''X''))
     (ex_json []) ([] :: (string \<times> (string \<times> string) list) list) \<and>
   retrieve ex_cls ex_json ex_cached_unkeyed (Single []) ([] :: unit list) (Some ''X'') False
     = Inl IndexError"
  by (simp add: key_missing_def retrieve_def ex_cached_unkeyed_def infer_identifier_def
      retrieval_of_def str_identifier_def)

text \<open>
  C8, amended.  With \<open>reapply\<close> false, both columns present with one cell per example, and
  a \<open>columns\<close> argument that is not empty, \<open>retrieve\<close> raises the one generic failure
  \<open>Could not retrieve information for all keys.\<close> exactly when some cache cell lacks the
  identifier or one of the requested column-set keys, in single and in batched retrieval.
  The failure is the same value whichever key is missing.
\<close>

theorem retrieve_missing_key:
  assumes "slices_column batch = Some slices"
    and "cache_column batch = Some caches"
    and "length slices = length caches"
    and "\<not> columns_empty columns"
  shows "retrieve cl sj batch columns proc_fns identifier False = Inl retrieval_failure \<longleftrightarrow>
     (\<exists>cache \<in> set caches. \<exists>key \<in> set (requested_keys sj columns).
        key_missing (lookup_identifier (cls_name cl) slices identifier) key cache)"
proof (cases "infer_identifier (cls_name cl) slices identifier")
  case (Inl e)
  from infer_identifier_Inl [OF Inl] assms(3) have "caches = []" and "e = IndexError" by auto
  with Inl assms(1) show ?thesis
    by (simp add: retrieve_def retrieval_failure_def)
next
  case (Inr identifier')
  let ?ident = "str_identifier identifier'"
  have li: "lookup_identifier (cls_name cl) slices identifier = ?ident"
    by (simp add: lookup_identifier_def Inr)
  show ?thesis
  proof (cases "retrieval_of (decode cl) sj ?ident batch columns")
    case (Inl e)
    from retrieval_of_Inl [OF assms(2) assms(4) Inl] obtain k where "e = KeyError k"
      and miss: "\<exists>cache \<in> set caches. \<exists>key \<in> set (requested_keys sj columns). key_missing ?ident key cache"
      by (cases e) (auto simp: is_KeyError_def)
    with Inl Inr assms(1) have "retrieve cl sj batch columns proc_fns identifier False = Inl retrieval_failure"
      by (simp add: retrieve_def)
    with miss li show ?thesis by simp
  next
    case (Inr r)
    from retrieval_of_Inr [OF assms(2) Inr]
    have nomiss: "\<not> (\<exists>cache \<in> set caches. \<exists>key \<in> set (requested_keys sj columns). key_missing ?ident key cache)"
      by blast
    from Inr \<open>infer_identifier (cls_name cl) slices identifier = Inr identifier'\<close> assms(1)
    have "retrieve cl sj batch columns proc_fns identifier False \<noteq> Inl retrieval_failure"
      by (simp add: retrieve_def)
    with nomiss li show ?thesis by simp
  qed
qed

theorem retrieve_missing_key_witness:
  "\<not> columns_empty (Single [''label'']) \<and>
   retrieve ex_cls ex_json ex_cached (Single [''label'']) ([] :: unit list) None False
     = Inl (ValueError ''Could not retrieve information for all keys.'') \<and>
   retrieve ex_cls ex_json ex_cached (Single [''text'']) ([] :: unit list) None False
     \<noteq> Inl (ValueError ''Could not retrieve information for all keys.'')"
proof -
  let ?slices = "[[(''SliceBuilder-1'', ())], [(''SliceBuilder-1'', ())]]"
  let ?caches = "[[(''SliceBuilder-1'', [(''text;'', ''e0'')])],
                  [(''SliceBuilder-1'', [(''text;'', ''e1'')])]]"
  have h1: "slices_column ex_cached = Some ?slices" by (simp add: ex_cached_def)
  have h2: "cache_column ex_cached = Some ?caches" by (simp add: ex_cached_def)
  have h3: "length ?slices = length ?caches" by simp
  have h4: "\<not> columns_empty (Single [''label''])" by (simp add: columns_empty_def)
  have h5: "\<not> columns_empty (Single [''text''])" by (simp add: columns_empty_def)
  have id: "lookup_identifier (cls_name ex_cls) ?slices None = ''SliceBuilder-1''"
    by (simp add: lookup_identifier_def infer_identifier_def ex_cls_def startswith_def
        str_identifier_def)
  from retrieve_missing_key [OF h1 h2 h3 h4, of ex_cls ex_json "[] :: unit list" None]
       retrieve_missing_key [OF h1 h2 h3 h5, of ex_cls ex_json "[] :: unit list" None]
       h4
  show ?thesis
    by (simp add: id requested_keys_def key_missing_def ex_json_def retrieval_failure_def)
qed

text \<open>
  C9, as stated, fails: with \<open>reapply=True\<close> the cached values are ignored, but nothing is
  recomputed and \<open>None\<close> is returned, where the same call without \<open>reapply\<close> returns the
  cached values.
\<close>

theorem retrieve_reapply_counterexample:
  "retrieve ex_cls ex_json ex_cached (Single [''text'']) ([] :: unit list) None True = Inr None \<and>
   retrieve ex_cls ex_json ex_cached (Single [''text'']) ([] :: unit list) None False
     = Inr (Some [(''text;'', [''decoded-e0'', ''decoded-e1''])])"
  by (simp add: retrieve_def ex_cached_def ex_cls_def ex_json_def infer_identifier_def
      startswith_def str_identifier_def retrieval_of_def retrieve_entry_def)

text \<open>
  C9, amended.  With \<open>reapply=True\<close>, \<open>retrieve\<close> ignores the panel altogether and returns
  \<open>None\<close>, for every panel, column-set argument, \<open>proc_fns\<close> and identifier; no
  transformation is run.
\<close>

theorem retrieve_reapply_returns_None:
  "retrieve cl strings_as_json batch columns proc_fns identifier True = Inr None"
  by (simp add: retrieve_def)

section \<open>The builder that overrides nothing\<close>

text \<open>
  C5.  The identity builder with one identifier on the five-example dataset with batch
  size 2: \<open>process_batch\<close> is invoked on the three batches and returns \<open>None\<close> for the
  membership each time, and \<open>np.concatenate\<close> on the three \<open>None\<close>s raises \<open>ValueError\<close>.
  No slice is returned.  Through \<open>__call__\<close> the transformation pass sees the five examples
  as one batch, and the same \<open>ValueError\<close> is raised.
\<close>

theorem identity_builder_process_dataset_raises:
  "process_dataset ex_json identity_builder ex_dp5 [''text''] 2 None
   = ([ProcessBatch (ex_dp5\<lparr>rows := [0, 1]\<rparr>), ProcessBatch (ex_dp5\<lparr>rows := [2, 3]\<rparr>),
       ProcessBatch (ex_dp5\<lparr>rows := [4]\<rparr>)],
      Inl (ValueError ''zero-dimensional arrays cannot be concatenated'')) \<and>
   call ex_json identity_builder (Panel ex_dp5) [''text''] 2 None
   = ([PrepareBatch (ex_dp5\<lparr>rows := [0, 1], dp_format := Some [''text'']\<rparr>),
       ProcessBatch ex_dp5],
      Inl (ValueError ''zero-dimensional arrays cannot be concatenated''))"
proof -
  have 1: "process_dataset ex_json identity_builder ex_dp5 [''text''] 2 None
   = ([ProcessBatch (ex_dp5\<lparr>rows := [0, 1]\<rparr>), ProcessBatch (ex_dp5\<lparr>rows := [2, 3]\<rparr>),
       ProcessBatch (ex_dp5\<lparr>rows := [4]\<rparr>)],
      Inl (ValueError ''zero-dimensional arrays cannot be concatenated''))"
    by (simp add: process_dataset_def dp_batch_def chunks.simps identity_builder_def
        base_builder_def ex_dp5_def process_batch_base_def np_concatenate_def)
  have 2: "call ex_json identity_builder (Panel ex_dp5) [''text''] 2 None
   = ([PrepareBatch (ex_dp5\<lparr>rows := [0, 1], dp_format := Some [''text'']\<rparr>),
       ProcessBatch ex_dp5],
      Inl (ValueError ''zero-dimensional arrays cannot be concatenated''))"
    by code_simp
  from 1 2 show ?thesis by simp
qed

section \<open>The top-level call\<close>

lemma prerequisites_handler_pending:
  "\<exists>p \<in> set (prerequisites self). \<not> available p dp \<Longrightarrow>
   prerequisites_handler self dp =
     Inl (RuntimeError (map prereq_name (filter (\<lambda>p. \<not> available p dp) (prerequisites self))))"
  by (auto simp: prerequisites_handler_def Let_def filter_empty_conv)

text \<open>
  C6.  When some declared prerequisite reports unavailable on the dataset, \<open>__call__\<close>
  raises the \<open>RuntimeError\<close> that names exactly the unavailable prerequisites.  The list of
  hook invocations is empty, so neither \<open>prepare_batch\<close> nor \<open>process_batch\<close> was invoked, and
  no slices or membership matrix are returned.
\<close>

theorem call_unmet_prerequisite:
  assumes "\<exists>p \<in> set (prerequisites self). \<not> available p dp"
  shows "call sj self dp columns batch_size num_proc =
     ([], Inl (RuntimeError (map prereq_name
                 (filter (\<lambda>p. \<not> available p dp) (prerequisites self)))))"
  using prerequisites_handler_pending [OF assms]
  by (cases dp) (simp_all add: call_def call_panel_def)

theorem call_unmet_prerequisite_witness:
  "(\<exists>p \<in> set (prerequisites (parity_builder\<lparr>prerequisites := [ex_prerequisite]\<rparr>)).
      \<not> available p (Panel ex_dp5)) \<and>
   call ex_json (parity_builder\<lparr>prerequisites := [ex_prerequisite]\<rparr>) (Panel ex_dp5) [''text''] 2 None
     = ([], Inl (RuntimeError [''Spacy'']))"
proof -
  have h: "\<exists>p \<in> set (prerequisites (parity_builder\<lparr>prerequisites := [ex_prerequisite]\<rparr>)).
      \<not> available p (Panel ex_dp5)"
    by (simp add: ex_prerequisite_def ex_dp5_def)
  from h call_unmet_prerequisite [OF h, of ex_json "[''text'']" 2 None]
  show ?thesis by (simp add: ex_prerequisite_def ex_dp5_def)
qed

lemma prepare_loop_trace:
  "\<exists>n. fst (prepare_loop self columns batches) = map PrepareBatch (take n batches)"
proof (induction batches arbitrary: self)
  case Nil
  then show ?case by simp
next
  case (Cons batch rest)
  show ?case
  proof (cases "prepare_batch self (state self) batch columns")
    case (Inl e)
    then have "fst (prepare_loop self columns (batch # rest)) = map PrepareBatch (take 1 (batch # rest))"
      by (cases e) simp_all
    then show ?thesis by blast
  next
    case (Inr s')
    obtain tr r where lp: "prepare_loop (self\<lparr>state := s'\<rparr>) columns rest = (tr, r)"
      by (cases "prepare_loop (self\<lparr>state := s'\<rparr>) columns rest")
    from Cons.IH [of "self\<lparr>state := s'\<rparr>"] lp obtain n where
      "tr = map PrepareBatch (take n rest)" by auto
    with Inr lp have "fst (prepare_loop self columns (batch # rest)) = map PrepareBatch (take (Suc n) (batch # rest))"
      by simp
    then show ?thesis by blast
  qed
qed

lemma process_loop_trace:
  "\<exists>n. fst (process_loop self columns batches slices ms) = map ProcessBatch (take n batches)"
proof (induction batches arbitrary: slices ms)
  case Nil
  then show ?case by simp
next
  case (Cons batch rest)
  show ?case
  proof (cases "process_batch self (state self) batch columns")
    case (Inl e)
    then have "fst (process_loop self columns (batch # rest) slices ms) = map ProcessBatch (take 1 (batch # rest))"
      by simp
    then show ?thesis by blast
  next
    case (Inr r)
    obtain sb m where r: "r = (sb, m)" by (cases r)
    obtain tr r0 where lp: "process_loop self columns rest (append_batches slices sb) (ms @ [m]) = (tr, r0)"
      by (cases "process_loop self columns rest (append_batches slices sb) (ms @ [m])")
    from Cons.IH [of "append_batches slices sb" "ms @ [m]"] lp obtain n where
      "tr = map ProcessBatch (take n rest)" by auto
    with Inr r lp have "fst (process_loop self columns (batch # rest) slices ms) = map ProcessBatch (take (Suc n) (batch # rest))"
      by simp
    then show ?thesis by blast
  qed
qed

lemma process_loop_trace_Inr:
  "snd (process_loop self columns batches slices ms) = Inr r \<Longrightarrow>
   fst (process_loop self columns batches slices ms) = map ProcessBatch batches"
proof (induction batches arbitrary: slices ms)
  case Nil
  then show ?case by simp
next
  case (Cons batch rest)
  show ?case
  proof (cases "process_batch self (state self) batch columns")
    case (Inl e)
    with Cons.prems show ?thesis by simp
  next
    case (Inr r')
    obtain sb m where r: "r' = (sb, m)" by (cases r')
    obtain tr r0 where lp: "process_loop self columns rest (append_batches slices sb) (ms @ [m]) = (tr, r0)"
      by (cases "process_loop self columns rest (append_batches slices sb) (ms @ [m])")
    from Cons.prems Inr r lp have "r0 = Inr r" by simp
    with lp Cons.IH [of "append_batches slices sb" "ms @ [m]"] have "tr = map ProcessBatch rest"
      by simp
    with Inr r lp show ?thesis by simp
  qed
qed

lemma process_dataset_fst:
  "batch_size \<noteq> 0 \<Longrightarrow>
   fst (process_dataset sj self dp columns batch_size num_proc)
     = fst (process_loop self columns (batches_of dp batch_size)
              (replicate (length (identifiers self)) [DataPanel_empty]) [])"
  by (simp add: process_dataset_def dp_batch_def batches_of_def split: prod.split sum.split)

lemma process_dataset_Inr_loop:
  "snd (process_dataset sj self dp columns batch_size num_proc) = Inr r \<Longrightarrow>
   batch_size \<noteq> 0 \<and>
   (\<exists>r'. snd (process_loop self columns (batches_of dp batch_size)
              (replicate (length (identifiers self)) [DataPanel_empty]) []) = Inr r')"
  by (cases "batch_size = 0")
     (auto simp: process_dataset_def dp_batch_def batches_of_def split: prod.splits sum.splits)

lemma process_dataset_trace:
  "\<exists>n. fst (process_dataset sj self dp columns batch_size num_proc)
        = map ProcessBatch (take n (batches_of dp batch_size))"
proof (cases "batch_size = 0")
  case True
  then have "fst (process_dataset sj self dp columns batch_size num_proc) = map ProcessBatch (take 0 (batches_of dp batch_size))"
    by (simp add: process_dataset_def dp_batch_def)
  then show ?thesis by blast
next
  case False
  from process_loop_trace obtain n where
    "fst (process_loop self columns (batches_of dp batch_size)
              (replicate (length (identifiers self)) [DataPanel_empty]) [])
     = map ProcessBatch (take n (batches_of dp batch_size))" by blast
  then have "fst (process_dataset sj self dp columns batch_size num_proc)
     = map ProcessBatch (take n (batches_of dp batch_size))"
    by (simp only: process_dataset_fst [OF False])
  then show ?thesis by blast
qed

lemma process_dataset_trace_Inr:
  assumes "snd (process_dataset sj self dp columns batch_size num_proc) = Inr r"
  shows "fst (process_dataset sj self dp columns batch_size num_proc)
        = map ProcessBatch (batches_of dp batch_size)"
proof -
  from process_dataset_Inr_loop [OF assms] obtain r' where b: "batch_size \<noteq> 0"
    and "snd (process_loop self columns (batches_of dp batch_size)
              (replicate (length (identifiers self)) [DataPanel_empty]) []) = Inr r'" by blast
  from process_loop_trace_Inr [OF this(2)] show ?thesis
    by (simp only: process_dataset_fst [OF b])
qed

lemma prepare_dataset_trace:
  "\<exists>n. fst (prepare_dataset self dp columns batch_size)
        = map PrepareBatch (take n (batches_of (scoped_panel self dp columns) batch_size))"
proof (cases "batch_size = 0")
  case True
  then have "fst (prepare_dataset self dp columns batch_size)
        = map PrepareBatch (take 0 (batches_of (scoped_panel self dp columns) batch_size))"
    by (simp add: prepare_dataset_def dp_batch_def)
  then show ?thesis by blast
next
  case False
  then have "fst (prepare_dataset self dp columns batch_size)
     = fst (prepare_loop self columns (batches_of (scoped_panel self dp columns) batch_size))"
    by (simp add: prepare_dataset_def dp_batch_def batches_of_def scoped_panel_def)
  with prepare_loop_trace [of self columns] show ?thesis by simp
qed

lemma call_panel_trace:
  "(\<exists>n k. fst (call_panel sj self dp columns batch_size num_proc)
       = map PrepareBatch (take n (batches_of (scoped_panel self dp columns) batch_size))
         @ map ProcessBatch (take k (batches_of dp 32))) \<and>
   (\<forall>r. snd (call_panel sj self dp columns batch_size num_proc) = Inr r \<longrightarrow>
      (\<exists>n. fst (call_panel sj self dp columns batch_size num_proc)
       = map PrepareBatch (take n (batches_of (scoped_panel self dp columns) batch_size))
         @ map ProcessBatch (batches_of dp 32)))"
proof -
  let ?prep = "batches_of (scoped_panel self dp columns) batch_size"
  let ?c = "call_panel sj self dp columns batch_size num_proc"
  show ?thesis
  proof (cases "prerequisites_handler self (Panel dp)")
    case (Inl e)
    then have "?c = ([], Inl e)" by (simp add: call_panel_def)
    then have "fst ?c = map PrepareBatch (take 0 ?prep) @ map ProcessBatch (take 0 (batches_of dp 32))"
      and "\<forall>r. snd ?c \<noteq> Inr r" by simp_all
    then show ?thesis by blast
  next
    case (Inr u)
    obtain tr1 p where pd: "prepare_dataset self dp columns batch_size = (tr1, p)"
      by (cases "prepare_dataset self dp columns batch_size")
    from prepare_dataset_trace [of self dp columns batch_size] pd
    obtain n where tr1: "tr1 = map PrepareBatch (take n ?prep)" by auto
    show ?thesis
    proof (cases p)
      case (Inl e)
      with Inr pd have "?c = (tr1, Inl e)" by (simp add: call_panel_def)
      with tr1 have "fst ?c = map PrepareBatch (take n ?prep) @ map ProcessBatch (take 0 (batches_of dp 32))"
        and "\<forall>r. snd ?c \<noteq> Inr r" by simp_all
      then show ?thesis by blast
    next
      case (Inr self')
      let ?pr = "process_dataset sj self' dp columns 32 num_proc"
      from Inr pd \<open>prerequisites_handler self (Panel dp) = Inr u\<close>
      have c: "?c = (tr1 @ fst ?pr, snd ?pr)"
        by (simp add: call_panel_def split: prod.splits)
      from process_dataset_trace [of sj self' dp columns 32 num_proc]
      obtain k where "fst ?pr = map ProcessBatch (take k (batches_of dp 32))" by blast
      with c tr1 have 1: "\<exists>n k. fst ?c = map PrepareBatch (take n ?prep) @ map ProcessBatch (take k (batches_of dp 32))"
        by auto
      have 2: "\<forall>r. snd ?c = Inr r \<longrightarrow>
          (\<exists>n. fst ?c = map PrepareBatch (take n ?prep) @ map ProcessBatch (batches_of dp 32))"
      proof (intro allI impI)
        fix r assume "snd ?c = Inr r"
        with c have "snd ?pr = Inr r" by simp
        from process_dataset_trace_Inr [OF this] c tr1
        show "\<exists>n. fst ?c = map PrepareBatch (take n ?prep) @ map ProcessBatch (batches_of dp 32)"
          by auto
      qed
      from 1 2 show ?thesis by blast
    qed
  qed
qed

text \<open>
  C10.  Whatever \<open>batch_size\<close> the caller passes, the invocations of \<open>process_batch\<close> made by
  \<open>__call__\<close> are on the batches of size 32 of the dataset, in order: an initial part of them
  in general, and all of them when the call returns.  The caller's \<open>batch_size\<close> only shows
  in the batches handed to \<open>prepare_batch\<close> (for raw input not even there: the second call
  is made with the default of 100).
\<close>

theorem call_transforms_in_batches_of_32:
  "(\<exists>n k. fst (call sj self dp columns batch_size num_proc)
       = map PrepareBatch (take n (batches_of (scoped_panel self (as_panel dp) columns)
                                     (preparation_batch_size dp batch_size)))
         @ map ProcessBatch (take k (batches_of (as_panel dp) 32))) \<and>
   (\<forall>r. snd (call sj self dp columns batch_size num_proc) = Inr r \<longrightarrow>
      (\<exists>n. fst (call sj self dp columns batch_size num_proc)
       = map PrepareBatch (take n (batches_of (scoped_panel self (as_panel dp) columns)
                                     (preparation_batch_size dp batch_size)))
         @ map ProcessBatch (batches_of (as_panel dp) 32)))"
proof (cases dp)
  case (Panel p)
  then have "call sj self dp columns batch_size num_proc
      = call_panel sj self p columns batch_size num_proc"
    by (simp add: call_def)
  with Panel call_panel_trace [of sj self p columns batch_size num_proc] show ?thesis
    by (simp add: as_panel_def preparation_batch_size_def)
next
  case (Raw raw)
  show ?thesis
  proof (cases "prerequisites_handler self (Raw raw)")
    case (Inl e)
    with Raw have c: "call sj self dp columns batch_size num_proc = ([], Inl e)"
      by (simp add: call_def)
    then have "fst (call sj self dp columns batch_size num_proc)
       = map PrepareBatch (take 0 (batches_of (scoped_panel self (as_panel dp) columns)
                                     (preparation_batch_size dp batch_size)))
         @ map ProcessBatch (take 0 (batches_of (as_panel dp) 32))"
      by simp
    with c show ?thesis by (metis Inl_Inr_False snd_conv)
  next
    case (Inr u)
    with Raw have "call sj self dp columns batch_size num_proc
      = call_panel sj self (DataPanel_of raw) columns 100 None"
      by (simp add: call_def)
    with Raw call_panel_trace [of sj self "DataPanel_of raw" columns 100 None] show ?thesis
      by (simp add: as_panel_def preparation_batch_size_def)
  qed
qed

theorem call_transforms_in_batches_of_32_witness:
  "snd (call ex_json membership_builder (Panel ex_dp5) [''text''] 2 None)
     = Inr ([DataPanel_empty\<lparr>dp_category := Some ''subpopulation'',
                             dp_lineage := [(''Subpopulation'', ''even'', ''text;'')]\<rparr>,
             DataPanel_empty\<lparr>dp_category := Some ''subpopulation'',
                             dp_lineage := [(''Subpopulation'', ''odd'', ''text;'')]\<rparr>],
            \<lparr>nd_cols = 2,
             nd_rows = [[True, False], [False, True], [True, False], [False, True],
                        [True, False]]\<rparr>) \<and>
   (\<exists>n. fst (call ex_json membership_builder (Panel ex_dp5) [''text''] 2 None)
       = map PrepareBatch
           (take n (batches_of (scoped_panel membership_builder ex_dp5 [''text'']) 2))
         @ [ProcessBatch ex_dp5])"
proof -
  have r: "snd (call ex_json membership_builder (Panel ex_dp5) [''text''] 2 None)
     = Inr ([DataPanel_empty\<lparr>dp_category := Some ''subpopulation'',
                             dp_lineage := [(''Subpopulation'', ''even'', ''text;'')]\<rparr>,
             DataPanel_empty\<lparr>dp_category := Some ''subpopulation'',
                             dp_lineage := [(''Subpopulation'', ''odd'', ''text;'')]\<rparr>],
            \<lparr>nd_cols = 2,
             nd_rows = [[True, False], [False, True], [True, False], [False, True],
                        [True, False]]\<rparr>)"
    by code_simp
  have b: "batches_of ex_dp5 32 = [ex_dp5]"
    by (simp add: batches_of_def chunks.simps ex_dp5_def)
  from call_transforms_in_batches_of_32
         [of ex_json membership_builder "Panel ex_dp5" "[''text'']" 2 None] r b
  show ?thesis by (simp add: as_panel_def preparation_batch_size_def)
qed

section \<open>The transformation pass under the batch contract\<close>






lemma chunks_empty_iff: "chunks b xs = [] \<longleftrightarrow> b = 0 \<or> xs = []"
  by (subst chunks.simps) simp
















lemma process_dataset_empty:
  assumes "0 < batch_size" and "rows dp = []"
  shows "process_dataset sj self dp columns batch_size num_proc
        = ([], Inl (ValueError ''need at least one array to concatenate''))"
proof -
  from assms(2) have "chunks batch_size (rows dp) = []" by (simp add: chunks_empty_iff)
  with assms(1) show ?thesis
    by (simp add: process_dataset_def dp_batch_def np_concatenate_def)
qed


lemma parity_builder_contract: "honors_batch_contract parity_builder columns"
  by (simp add: honors_batch_contract_def parity_builder_def num_slices_def wf_ndarray_def
      nd_shape_def list_all_iff)






text \<open>
  C2.  On an empty dataset there is no batch, \<open>process_batch\<close> is never called, and
  \<open>np.concatenate\<close> raises \<open>ValueError\<close> on the empty list of submatrices, also for a builder
  that honors the batch contract: no slices and no matrix are returned.
\<close>

theorem process_dataset_empty_dataset_raises:
  "honors_batch_contract parity_builder [''text''] \<and>
   process_dataset ex_json parity_builder (ex_dp5\<lparr>rows := []\<rparr>) [''text''] 2 None
     = ([], Inl (ValueError ''need at least one array to concatenate''))"
  using parity_builder_contract [of "[''text'']"]
  by (simp add: process_dataset_empty)






end
